theory Spec2Isabelle
  imports Complex_Main "HOL-Library.Sublist" "HOL-Library.Multiset"
begin

section \<open>Values, errors and the sharp library\<close>

text \<open>
  An image buffer is a list of bytes. The fields of a transformation request have the
  types that \<^verbatim>\<open>transformationValidation\<close> (src/utils/validation.js) gives them; a
  property that may be \<^verbatim>\<open>undefined\<close> is an option.
\<close>

type_synonym buffer = "nat list"

text \<open>JavaScript truthiness of a boolean, a number and a string that may be undefined.\<close>

definition truthy_bool :: "bool option \<Rightarrow> bool" where
  "truthy_bool b = (case b of None \<Rightarrow> False | Some v \<Rightarrow> v)"

definition truthy_num :: "('a::zero) option \<Rightarrow> bool" where
  "truthy_num n = (case n of None \<Rightarrow> False | Some v \<Rightarrow> v \<noteq> 0)"

definition truthy_str :: "string option \<Rightarrow> bool" where
  "truthy_str s = (case s of None \<Rightarrow> False | Some v \<Rightarrow> v \<noteq> [])"

text \<open>\<^verbatim>\<open>a || d\<close> on a number and on a boolean.\<close>

definition or_num :: "('a::zero) option \<Rightarrow> 'a \<Rightarrow> 'a" where
  "or_num n d = (case n of None \<Rightarrow> d | Some v \<Rightarrow> if v \<noteq> 0 then v else d)"

definition or_false :: "bool option \<Rightarrow> bool" where
  "or_false b = (case b of None \<Rightarrow> False | Some v \<Rightarrow> v)"

text \<open>\<^verbatim>\<open>x > m\<close> where \<^verbatim>\<open>x\<close> may be undefined (the comparison is then false).\<close>

definition gt :: "int option \<Rightarrow> int \<Rightarrow> bool" where
  "gt x m = (case x of None \<Rightarrow> False | Some v \<Rightarrow> v > m)"

text \<open>
  Errors. Every \<^verbatim>\<open>throw\<close> of the source is a constructor:
  \<^item> \<open>External m\<close>: an error thrown by a library (sharp, the S3 client, mongoose) with message \<open>m\<close>;
  \<^item> \<open>MaximumDimension d\<close>: \<^verbatim>\<open>Maximum dimension allowed is ${d}px\<close>;
  \<^item> \<open>CropRequired\<close>: \<^verbatim>\<open>Width and height are required for cropping\<close>;
  \<^item> \<open>UnsupportedFormat f\<close>: \<^verbatim>\<open>Unsupported format: ${f}\<close>;
  \<^item> \<open>TypeError\<close>: a property read on \<^verbatim>\<open>undefined\<close> or \<^verbatim>\<open>null\<close>;
  \<^item> \<open>ImageNotFound\<close>: \<^verbatim>\<open>Image not found\<close>;
  \<^item> \<open>Failed p e\<close>: the rethrow \<^verbatim>\<open>${p}: ${e.message}\<close> of a catch block.
\<close>

datatype error =
    External string
  | MaximumDimension int
  | CropRequired
  | UnsupportedFormat string
  | TypeError
  | ImageNotFound
  | Failed string error

definition catch :: "string \<Rightarrow> error + 'a \<Rightarrow> error + 'a" where
  "catch p r = (case r of Inl e \<Rightarrow> Inl (Failed p e) | Inr v \<Rightarrow> Inr v)"

definition lib :: "string + 'a \<Rightarrow> error + 'a" where
  "lib r = (case r of Inl m \<Rightarrow> Inl (External m) | Inr v \<Rightarrow> Inr v)"

definition and_then :: "error + 'a \<Rightarrow> ('a \<Rightarrow> error + 'b) \<Rightarrow> error + 'b" where
  "and_then r f = (case r of Inl e \<Rightarrow> Inl e | Inr v \<Rightarrow> f v)"

text \<open>
  The calls the source chains on a sharp instance before \<^verbatim>\<open>toBuffer()\<close>, with their
  arguments. The library itself is a parameter: \<open>toBuffer\<close> runs a chain of calls on an
  input buffer and \<open>metadata\<close> reads an image header; either may throw.
  \<open>Composite_alpha_call a\<close> is the tiled composite of \<open>addWatermark\<close> for the opacity
  \<open>a\<close>: the call carries the opacity, from which the source computes the alpha byte
  \<^verbatim>\<open>Math.floor(255 * (1 - opacity))\<close> in floating point.
\<close>

datatype sharp_call =
    Resize_call "int option" "int option" string bool
  | Resize_width_call "int option"
  | Extract_call int int int int
  | Rotate_call "real option"
  | Flip_call
  | Flop_call
  | Grayscale_call
  | Tint_call nat nat nat
  | Blur_call real
  | Sharpen_call
  | Modulate_brightness_call real
  | Linear_call real real
  | Modulate_saturation_call real
  | Jpeg_call int bool
  | Png_call int bool
  | Png_default_call
  | Webp_call int bool
  | Avif_call int
  | Composite_alpha_call real
  | Composite_call buffer string

record sharp_metadata =
  m_width :: "int option"
  m_height :: "int option"
  m_format :: "string option"
  m_space :: "string option"
  m_hasAlpha :: "bool option"

record sharp =
  toBuffer :: "buffer \<Rightarrow> sharp_call list \<Rightarrow> string + buffer"
  metadata :: "buffer \<Rightarrow> string + sharp_metadata"

section \<open>The transformation request\<close>

record resize_options =
  r_width :: "int option"
  r_height :: "int option"
  r_fit :: "string option"
  r_withoutEnlargement :: "bool option"

record crop_options =
  c_width :: "int option"
  c_height :: "int option"
  c_x :: "int option"
  c_y :: "int option"

record filter_options =
  grayscale :: "bool option"
  sepia :: "bool option"
  blur :: "real option"
  sharpen :: "bool option"
  brightness :: "real option"
  contrast :: "real option"
  saturation :: "real option"

record format_options =
  quality :: "int option"
  progressive :: "bool option"
  compressionLevel :: "int option"
  lossless :: "bool option"

record compress_options =
  cp_quality :: "int option"
  cp_format :: "string option"

record watermark_options =
  gravity :: "string option"
  opacity :: "real option"

record watermark_spec =
  wm_text :: "string option"
  wm_image :: "buffer option"
  wm_options :: "watermark_options option"

record transformations =
  t_rotate :: "real option"
  t_flip :: "bool option"
  t_mirror :: "bool option"
  t_crop :: "crop_options option"
  t_resize :: "resize_options option"
  t_filters :: "filter_options option"
  t_watermark :: "watermark_spec option"
  t_compress :: "compress_options option"
  t_format :: "string option"
  t_formatOptions :: "format_options option"

section \<open>ImageProcessor (src/utils/imageProcessor.js)\<close>

record image_processor =
  maxDimension :: int
  defaultQuality :: int

text \<open>
  The constructor. Its arguments are the results of \<^verbatim>\<open>parseInt\<close> on the environment
  variables \<^verbatim>\<open>MAX_IMAGE_DIMENSION\<close> and \<^verbatim>\<open>DEFAULT_QUALITY\<close>; \<open>None\<close> is \<^verbatim>\<open>NaN\<close>
  (the variable is unset or not a number).
\<close>

definition new_ImageProcessor :: "int option \<Rightarrow> int option \<Rightarrow> image_processor" where
  "new_ImageProcessor env_max env_quality =
     \<lparr>maxDimension = or_num env_max 4000, defaultQuality = or_num env_quality 80\<rparr>"

definition getMetadata :: "sharp \<Rightarrow> buffer \<Rightarrow> error + sharp_metadata" where
  "getMetadata S imageBuffer =
     catch ''Failed to extract image metadata'' (lib (metadata S imageBuffer))"

definition resize :: "sharp \<Rightarrow> image_processor \<Rightarrow> buffer \<Rightarrow> resize_options \<Rightarrow> error + buffer" where
  "resize S P imageBuffer options =
     (let width = r_width options;
          height = r_height options;
          fit = (case r_fit options of None \<Rightarrow> ''inside'' | Some f \<Rightarrow> f);
          withoutEnlargement = (case r_withoutEnlargement options of None \<Rightarrow> True | Some b \<Rightarrow> b)
      in catch ''Failed to resize image''
           (if gt width (maxDimension P) \<or> gt height (maxDimension P)
            then Inl (MaximumDimension (maxDimension P))
            else lib (toBuffer S imageBuffer
                   (if truthy_num width \<or> truthy_num height
                    then [Resize_call width height fit withoutEnlargement] else []))))"

definition crop :: "sharp \<Rightarrow> buffer \<Rightarrow> crop_options \<Rightarrow> error + buffer" where
  "crop S imageBuffer options =
     (let x = (case c_x options of None \<Rightarrow> 0 | Some v \<Rightarrow> v);
          y = (case c_y options of None \<Rightarrow> 0 | Some v \<Rightarrow> v)
      in catch ''Failed to crop image''
           (case (c_width options, c_height options) of
              (Some width, Some height) \<Rightarrow>
                 if width = 0 \<or> height = 0 then Inl CropRequired
                 else lib (toBuffer S imageBuffer [Extract_call x y width height])
            | _ \<Rightarrow> Inl CropRequired))"

definition rotate_image :: "sharp \<Rightarrow> buffer \<Rightarrow> real option \<Rightarrow> error + buffer" where
  "rotate_image S imageBuffer angle =
     catch ''Failed to rotate image'' (lib (toBuffer S imageBuffer [Rotate_call angle]))"

definition flip_image :: "sharp \<Rightarrow> buffer \<Rightarrow> error + buffer" where
  "flip_image S imageBuffer =
     catch ''Failed to flip image'' (lib (toBuffer S imageBuffer [Flip_call]))"

definition mirror :: "sharp \<Rightarrow> buffer \<Rightarrow> error + buffer" where
  "mirror S imageBuffer =
     catch ''Failed to mirror image'' (lib (toBuffer S imageBuffer [Flop_call]))"

text \<open>
  \<open>applyFilters\<close> adds one call to the chain for each truthy filter, in the order of the
  source, and runs the chain once. \<^verbatim>\<open>blur\<close> is a number by its type, so the
  \<^verbatim>\<open>typeof\<close> test of the source takes its value as the blur amount.
\<close>

definition filter_chain :: "filter_options \<Rightarrow> sharp_call list" where
  "filter_chain f =
     (if truthy_bool (grayscale f) then [Grayscale_call] else []) @
     (if truthy_bool (sepia f) then [Tint_call 255 238 196] else []) @
     (case blur f of Some b \<Rightarrow> if b \<noteq> 0 then [Blur_call b] else [] | None \<Rightarrow> []) @
     (if truthy_bool (sharpen f) then [Sharpen_call] else []) @
     (case brightness f of Some b \<Rightarrow> if b \<noteq> 0 then [Modulate_brightness_call b] else [] | None \<Rightarrow> []) @
     (case contrast f of
        Some contrastFactor \<Rightarrow>
          if contrastFactor \<noteq> 0 then [Linear_call contrastFactor (128 * (1 - contrastFactor))] else []
      | None \<Rightarrow> []) @
     (case saturation f of Some s \<Rightarrow> if s \<noteq> 0 then [Modulate_saturation_call s] else [] | None \<Rightarrow> [])"

definition applyFilters :: "sharp \<Rightarrow> buffer \<Rightarrow> filter_options \<Rightarrow> error + buffer" where
  "applyFilters S imageBuffer f =
     catch ''Failed to apply filters'' (lib (toBuffer S imageBuffer (filter_chain f)))"

text \<open>
  The numeric ranges \<^verbatim>\<open>transformationValidation\<close> (src/utils/validation.js) accepts
  for the filters; an absent filter is accepted.
\<close>

definition in_range :: "real option \<Rightarrow> real \<Rightarrow> real \<Rightarrow> bool" where
  "in_range v lo hi = (case v of None \<Rightarrow> True | Some x \<Rightarrow> lo \<le> x \<and> x \<le> hi)"

definition filters_schema :: "filter_options \<Rightarrow> bool" where
  "filters_schema f =
     (in_range (blur f) 0.3 1000 \<and> in_range (brightness f) 0.1 3
      \<and> in_range (contrast f) 0.1 3 \<and> in_range (saturation f) 0 3)"

text \<open>\<^verbatim>\<open>String.prototype.toLowerCase\<close> on ASCII.\<close>

definition lower_char :: "char \<Rightarrow> char" where
  "lower_char c =
     (if (65::nat) \<le> of_char c \<and> of_char c \<le> (90::nat) then char_of (of_char c + (32::nat)) else c)"

definition toLowerCase :: "string \<Rightarrow> string" where
  "toLowerCase s = map lower_char s"

definition changeFormat ::
  "sharp \<Rightarrow> image_processor \<Rightarrow> buffer \<Rightarrow> string option \<Rightarrow> format_options \<Rightarrow> error + buffer" where
  "changeFormat S P imageBuffer format options =
     catch ''Failed to convert image format''
       (case format of
          None \<Rightarrow> Inl TypeError
        | Some fmt \<Rightarrow>
            (let l = toLowerCase fmt in
             if l = ''jpeg'' \<or> l = ''jpg'' then
               lib (toBuffer S imageBuffer
                 [Jpeg_call (or_num (quality options) (defaultQuality P)) (or_false (progressive options))])
             else if l = ''png'' then
               lib (toBuffer S imageBuffer
                 [Png_call (or_num (compressionLevel options) 6) (or_false (progressive options))])
             else if l = ''webp'' then
               lib (toBuffer S imageBuffer
                 [Webp_call (or_num (quality options) (defaultQuality P)) (or_false (lossless options))])
             else if l = ''avif'' then
               lib (toBuffer S imageBuffer [Avif_call (or_num (quality options) (defaultQuality P))])
             else Inl (UnsupportedFormat fmt)))"

definition compress ::
  "sharp \<Rightarrow> image_processor \<Rightarrow> buffer \<Rightarrow> compress_options \<Rightarrow> error + buffer" where
  "compress S P imageBuffer options =
     (let q = (case cp_quality options of None \<Rightarrow> defaultQuality P | Some v \<Rightarrow> v);
          format = cp_format options
      in catch ''Failed to compress image''
           (and_then (lib (metadata S imageBuffer)) (\<lambda>md.
              let originalFormat = (if truthy_str format then format else m_format md)
              in changeFormat S P imageBuffer originalFormat
                   \<lparr>quality = Some q, progressive = None, compressionLevel = None, lossless = None\<rparr>)))"

definition addWatermark ::
  "sharp \<Rightarrow> buffer \<Rightarrow> buffer \<Rightarrow> watermark_options option \<Rightarrow> error + buffer" where
  "addWatermark S imageBuffer watermarkBuffer options =
     (let g = (case options of None \<Rightarrow> ''southeast''
               | Some w \<Rightarrow> (case gravity w of None \<Rightarrow> ''southeast'' | Some v \<Rightarrow> v));
          a = (case options of None \<Rightarrow> 0.5
               | Some w \<Rightarrow> (case opacity w of None \<Rightarrow> 0.5 | Some v \<Rightarrow> v))
      in catch ''Failed to add watermark''
           (and_then (lib (metadata S imageBuffer)) (\<lambda>imageMetadata.
              let watermarkWidth = map_option (\<lambda>w. \<lfloor>real_of_int w * 0.2\<rfloor>) (m_width imageMetadata)
              in and_then
                   (lib (toBuffer S watermarkBuffer
                      [Resize_width_call watermarkWidth,
                       Composite_alpha_call a,
                       Png_default_call]))
                   (\<lambda>processedWatermark.
                      lib (toBuffer S imageBuffer [Composite_call processedWatermark g])))))"

text \<open>
  \<open>transform\<close>: the chain of guarded stages of the source, each on the buffer the
  previous one returned; the first error leaves the chain and is rethrown by the catch
  block.
\<close>

definition transform ::
  "sharp \<Rightarrow> image_processor \<Rightarrow> buffer \<Rightarrow> transformations \<Rightarrow> error + buffer" where
  "transform S P imageBuffer t =
     catch ''Failed to transform image''
      (and_then (if truthy_num (t_rotate t) then rotate_image S imageBuffer (t_rotate t)
                 else Inr imageBuffer) (\<lambda>b1.
       and_then (if truthy_bool (t_flip t) then flip_image S b1 else Inr b1) (\<lambda>b2.
       and_then (if truthy_bool (t_mirror t) then mirror S b2 else Inr b2) (\<lambda>b3.
       and_then (case t_crop t of Some c \<Rightarrow> crop S b3 c | None \<Rightarrow> Inr b3) (\<lambda>b4.
       and_then (case t_resize t of Some r \<Rightarrow> resize S P b4 r | None \<Rightarrow> Inr b4) (\<lambda>b5.
       and_then (case t_filters t of Some f \<Rightarrow> applyFilters S b5 f | None \<Rightarrow> Inr b5) (\<lambda>b6.
       and_then (case t_watermark t of
                   Some w \<Rightarrow> (case wm_image w of
                                Some img \<Rightarrow> addWatermark S b6 img (wm_options w)
                              | None \<Rightarrow> Inr b6)
                 | None \<Rightarrow> Inr b6) (\<lambda>b7.
       and_then (case t_compress t of Some c \<Rightarrow> compress S P b7 c | None \<Rightarrow> Inr b7) (\<lambda>b8.
       if truthy_str (t_format t)
       then changeFormat S P b8 (t_format t)
              (case t_formatOptions t of
                 Some fo \<Rightarrow> fo
               | None \<Rightarrow> \<lparr>quality = None, progressive = None, compressionLevel = None, lossless = None\<rparr>)
       else Inr b8)))))))))"

text \<open>The module exports one instance; with neither environment variable set:\<close>

definition imageProcessor :: image_processor where
  "imageProcessor = new_ImageProcessor None None"

subsection \<open>The precedence of the specification\<close>

text \<open>
  The specification's words for \<open>transform\<close>: the stages in the fixed precedence
  rotate, flip, mirror, crop, resize, filters, watermark, compress, format conversion.
  \<open>present\<close> says that the request has the stage's field, \<open>requested\<close> is the guard
  the source puts before the stage, \<open>apply_stage\<close> is the call the source makes for
  it, and \<open>run_stages\<close> runs a list of stages in the order of the list, stopping at
  the first error.
\<close>

datatype stage =
  Rotate | Flip | Mirror | Crop | Resize | Filters | Watermark | Compress | Format

definition precedence :: "stage list" where
  "precedence = [Rotate, Flip, Mirror, Crop, Resize, Filters, Watermark, Compress, Format]"

fun present :: "transformations \<Rightarrow> stage \<Rightarrow> bool" where
  "present t Rotate = (t_rotate t \<noteq> None)"
| "present t Flip = (t_flip t \<noteq> None)"
| "present t Mirror = (t_mirror t \<noteq> None)"
| "present t Crop = (t_crop t \<noteq> None)"
| "present t Resize = (t_resize t \<noteq> None)"
| "present t Filters = (t_filters t \<noteq> None)"
| "present t Watermark = (t_watermark t \<noteq> None)"
| "present t Compress = (t_compress t \<noteq> None)"
| "present t Format = (t_format t \<noteq> None)"

fun requested :: "transformations \<Rightarrow> stage \<Rightarrow> bool" where
  "requested t Rotate = truthy_num (t_rotate t)"
| "requested t Flip = truthy_bool (t_flip t)"
| "requested t Mirror = truthy_bool (t_mirror t)"
| "requested t Crop = (t_crop t \<noteq> None)"
| "requested t Resize = (t_resize t \<noteq> None)"
| "requested t Filters = (t_filters t \<noteq> None)"
| "requested t Watermark =
     (case t_watermark t of None \<Rightarrow> False | Some w \<Rightarrow> wm_image w \<noteq> None)"
| "requested t Compress = (t_compress t \<noteq> None)"
| "requested t Format = truthy_str (t_format t)"

fun apply_stage ::
  "sharp \<Rightarrow> image_processor \<Rightarrow> transformations \<Rightarrow> stage \<Rightarrow> buffer \<Rightarrow> error + buffer" where
  "apply_stage S P t Rotate b = rotate_image S b (t_rotate t)"
| "apply_stage S P t Flip b = flip_image S b"
| "apply_stage S P t Mirror b = mirror S b"
| "apply_stage S P t Crop b = (case t_crop t of Some c \<Rightarrow> crop S b c | None \<Rightarrow> Inr b)"
| "apply_stage S P t Resize b = (case t_resize t of Some r \<Rightarrow> resize S P b r | None \<Rightarrow> Inr b)"
| "apply_stage S P t Filters b =
     (case t_filters t of Some f \<Rightarrow> applyFilters S b f | None \<Rightarrow> Inr b)"
| "apply_stage S P t Watermark b =
     (case t_watermark t of
        Some w \<Rightarrow> (case wm_image w of Some img \<Rightarrow> addWatermark S b img (wm_options w)
                   | None \<Rightarrow> Inr b)
      | None \<Rightarrow> Inr b)"
| "apply_stage S P t Compress b =
     (case t_compress t of Some c \<Rightarrow> compress S P b c | None \<Rightarrow> Inr b)"
| "apply_stage S P t Format b =
     changeFormat S P b (t_format t)
       (case t_formatOptions t of
          Some fo \<Rightarrow> fo
        | None \<Rightarrow> \<lparr>quality = None, progressive = None, compressionLevel = None, lossless = None\<rparr>)"

fun run_stages ::
  "sharp \<Rightarrow> image_processor \<Rightarrow> transformations \<Rightarrow> stage list \<Rightarrow> buffer \<Rightarrow> error + buffer" where
  "run_stages S P t [] b = Inr b"
| "run_stages S P t (s # ss) b = and_then (apply_stage S P t s b) (run_stages S P t ss)"

text \<open>
  A request as the client writes it: a JSON object, that is a list of fields in the
  order they appear. \<open>object_of\<close> reads the list into the properties the source looks up
  by name (a later duplicate of a key overwrites an earlier one).
\<close>

datatype field =
    F_rotate real
  | F_flip bool
  | F_mirror bool
  | F_crop crop_options
  | F_resize resize_options
  | F_filters filter_options
  | F_watermark watermark_spec
  | F_compress compress_options
  | F_format string
  | F_formatOptions format_options

fun key :: "field \<Rightarrow> string" where
  "key (F_rotate v) = ''rotate''"
| "key (F_flip v) = ''flip''"
| "key (F_mirror v) = ''mirror''"
| "key (F_crop v) = ''crop''"
| "key (F_resize v) = ''resize''"
| "key (F_filters v) = ''filters''"
| "key (F_watermark v) = ''watermark''"
| "key (F_compress v) = ''compress''"
| "key (F_format v) = ''format''"
| "key (F_formatOptions v) = ''formatOptions''"

fun set_field :: "field \<Rightarrow> transformations \<Rightarrow> transformations" where
  "set_field (F_rotate v) t = t\<lparr>t_rotate := Some v\<rparr>"
| "set_field (F_flip v) t = t\<lparr>t_flip := Some v\<rparr>"
| "set_field (F_mirror v) t = t\<lparr>t_mirror := Some v\<rparr>"
| "set_field (F_crop v) t = t\<lparr>t_crop := Some v\<rparr>"
| "set_field (F_resize v) t = t\<lparr>t_resize := Some v\<rparr>"
| "set_field (F_filters v) t = t\<lparr>t_filters := Some v\<rparr>"
| "set_field (F_watermark v) t = t\<lparr>t_watermark := Some v\<rparr>"
| "set_field (F_compress v) t = t\<lparr>t_compress := Some v\<rparr>"
| "set_field (F_format v) t = t\<lparr>t_format := Some v\<rparr>"
| "set_field (F_formatOptions v) t = t\<lparr>t_formatOptions := Some v\<rparr>"

definition no_transformations :: transformations where
  "no_transformations =
     \<lparr>t_rotate = None, t_flip = None, t_mirror = None, t_crop = None, t_resize = None,
      t_filters = None, t_watermark = None, t_compress = None, t_format = None,
      t_formatOptions = None\<rparr>"

definition object_of :: "field list \<Rightarrow> transformations" where
  "object_of fs = fold set_field fs no_transformations"

section \<open>Upload filter (middleware/upload.js)\<close>

text \<open>
  \<open>fileFilter\<close> accepts a file when its MIME type is in the allowed list; the argument
  \<open>env_allowed\<close> is \<^verbatim>\<open>ALLOWED_FILE_TYPES\<close> split at commas, or \<open>None\<close> when unset.
\<close>

definition fileFilter :: "string list option \<Rightarrow> string \<Rightarrow> bool" where
  "fileFilter env_allowed mimetype =
     (let allowedTypes =
        (case env_allowed of
           Some l \<Rightarrow> l
         | None \<Rightarrow> [''image/jpeg'', ''image/jpg'', ''image/png'', ''image/webp'', ''image/gif''])
      in mimetype \<in> set allowedTypes)"

section \<open>Stored records and external collaborators\<close>

text \<open>
  An Image document (models/Image.js), with the fields the queue handlers read or write.
  A field that a handler may set from an undefined value is an option. The template
  literal \<^verbatim>\<open>${v}\<close> of an undefined value is the text \<^verbatim>\<open>undefined\<close>.
\<close>

record image =
  i_id :: string
  i_userId :: "string option"
  i_originalName :: string
  i_filename :: string
  i_mimeType :: string
  i_size :: nat
  i_width :: "int option"
  i_height :: "int option"
  i_s3Key :: string
  i_s3Bucket :: "string option"
  i_publicUrl :: "string option"
  i_colorSpace :: "string option"
  i_hasAlpha :: "bool option"
  i_format :: "string option"
  i_transformations :: "string list"

definition str_of :: "string option \<Rightarrow> string" where
  "str_of v = (case v of None \<Rightarrow> ''undefined'' | Some s \<Rightarrow> s)"

text \<open>
  The collaborators are parameters, over a state \<open>'w\<close> of the outside world (the bucket
  and the database) and a type \<open>'u\<close> of User documents: the S3 client's get and put, and
  the mongoose calls on Image and User. Each may throw; a read returns no new state.
  \<open>Image_save\<close> stands for the whole of \<^verbatim>\<open>save()\<close>, the schema's validation included.
  \<^verbatim>\<open>models/User.js\<close> is not among the sources, so \<open>updateStorageUsage\<close> is a
  parameter too.
\<close>

record ('w, 'u) services =
  s3_get :: "'w \<Rightarrow> string option \<Rightarrow> string \<Rightarrow> string + buffer"
  s3_put :: "'w \<Rightarrow> string option \<Rightarrow> string \<Rightarrow> buffer \<Rightarrow> string \<Rightarrow> string + 'w"
  Image_findById :: "'w \<Rightarrow> string \<Rightarrow> string + image option"
  Image_save :: "'w \<Rightarrow> image \<Rightarrow> string + 'w"
  User_findById :: "'w \<Rightarrow> string option \<Rightarrow> string + 'u option"
  updateStorageUsage :: "'w \<Rightarrow> 'u \<Rightarrow> int \<Rightarrow> string + 'w"

subsection \<open>S3Service (src/utils/s3Service.js)\<close>

record s3_service =
  bucketName :: "string option"
  region :: string

record upload_result =
  u_success :: bool
  u_key :: string
  u_bucket :: "string option"
  u_publicUrl :: string

definition generatePublicUrl :: "s3_service \<Rightarrow> string \<Rightarrow> string" where
  "generatePublicUrl C k =
     (if region C = ''us-east-1''
      then ''https://'' @ str_of (bucketName C) @ ''.s3.amazonaws.com/'' @ k
      else ''https://'' @ str_of (bucketName C) @ ''.s3.'' @ region C @ ''.amazonaws.com/'' @ k)"

definition uploadFile ::
  "('w, 'u) services \<Rightarrow> s3_service \<Rightarrow> 'w \<Rightarrow> buffer \<Rightarrow> string \<Rightarrow> string
     \<Rightarrow> error + ('w \<times> upload_result)" where
  "uploadFile V C w fileBuffer k contentType =
     catch ''Failed to upload file to S3''
       (and_then (lib (s3_put V w (bucketName C) k fileBuffer contentType)) (\<lambda>w'.
          Inr (w', \<lparr>u_success = True, u_key = k, u_bucket = bucketName C,
                    u_publicUrl = generatePublicUrl C k\<rparr>)))"

definition downloadFile ::
  "('w, 'u) services \<Rightarrow> s3_service \<Rightarrow> 'w \<Rightarrow> string \<Rightarrow> error + buffer" where
  "downloadFile V C w k =
     catch ''Failed to download file from S3'' (lib (s3_get V w (bucketName C) k))"

section \<open>The queue (utils/queue.js)\<close>

record job_data =
  d_imageId :: string
  d_transformations :: "transformations option"
  d_userId :: "string option"

record job_options =
  attempts :: nat
  backoff_type :: string
  backoff_delay :: nat
  removeOnComplete :: bool
  removeOnFail :: bool

text \<open>
  A job as Bull keeps it. \<open>j_state\<close> is what \<^verbatim>\<open>job.getState()\<close> returns, the times are
  milliseconds.
\<close>

record job =
  j_id :: string
  j_name :: string
  j_data :: "job_data option"
  j_opts :: job_options
  j_state :: string
  j_progress :: nat
  j_timestamp :: nat
  j_processedOn :: "nat option"
  j_finishedOn :: "nat option"
  j_failedReason :: "string option"

text \<open>
  \<^verbatim>\<open>imageProcessingQueue.add(name, data, opts)\<close>: Bull creates the job in state waiting,
  with an id of its own (\<open>jid\<close>) and the time of the call (\<open>now\<close>).
\<close>

definition queue_add :: "string \<Rightarrow> nat \<Rightarrow> string \<Rightarrow> job_data \<Rightarrow> job_options \<Rightarrow> job" where
  "queue_add jid now name d opts =
     \<lparr>j_id = jid, j_name = name, j_data = Some d, j_opts = opts, j_state = ''waiting'',
      j_progress = 0, j_timestamp = now, j_processedOn = None, j_finishedOn = None,
      j_failedReason = None\<rparr>"

definition addTransformJob ::
  "string \<Rightarrow> nat \<Rightarrow> string \<Rightarrow> transformations \<Rightarrow> string \<Rightarrow> job" where
  "addTransformJob jid now imageId t userId =
     queue_add jid now ''transform''
       \<lparr>d_imageId = imageId, d_transformations = Some t, d_userId = Some userId\<rparr>
       \<lparr>attempts = 3, backoff_type = ''exponential'', backoff_delay = 2000,
        removeOnComplete = True, removeOnFail = False\<rparr>"

definition addOptimizeJob :: "string \<Rightarrow> nat \<Rightarrow> string \<Rightarrow> job" where
  "addOptimizeJob jid now imageId =
     queue_add jid now ''optimize''
       \<lparr>d_imageId = imageId, d_transformations = None, d_userId = None\<rparr>
       \<lparr>attempts = 2, backoff_type = ''exponential'', backoff_delay = 1000,
        removeOnComplete = True, removeOnFail = False\<rparr>"

text \<open>
  The two \<^verbatim>\<open>clean\<close> calls the module makes when it is loaded. Bull's \<^verbatim>\<open>clean\<close> is a
  parameter. \<open>bull_clean\<close> is the behaviour of the library's call at the time \<open>now\<close>:
  it removes the jobs of the given status whose time is more than the grace period ago.
  The time of a job is a parameter \<open>ts\<close> of \<open>bull_clean\<close>; the library's clean script
  reads \<open>job_time\<close>, the first that is set of \<^verbatim>\<open>finishedOn\<close>, \<^verbatim>\<open>processedOn\<close> and
  \<^verbatim>\<open>timestamp\<close>.
\<close>

definition startup_clean :: "(nat \<Rightarrow> string \<Rightarrow> job list \<Rightarrow> job list) \<Rightarrow> job list \<Rightarrow> job list" where
  "startup_clean clean q =
     clean (24 * 60 * 60 * 1000) ''failed'' (clean (24 * 60 * 60 * 1000) ''completed'' q)"

definition job_time :: "job \<Rightarrow> nat" where
  "job_time j =
     (case j_finishedOn j of
        Some f \<Rightarrow> f
      | None \<Rightarrow> (case j_processedOn j of Some p \<Rightarrow> p | None \<Rightarrow> j_timestamp j))"

definition bull_clean ::
  "(job \<Rightarrow> nat) \<Rightarrow> nat \<Rightarrow> nat \<Rightarrow> string \<Rightarrow> job list \<Rightarrow> job list" where
  "bull_clean ts now grace status q =
     filter (\<lambda>j. \<not> (j_state j = status \<and> ts j + grace < now)) q"

subsection \<open>The transform handler\<close>

text \<open>
  A handler returns the progress values it reported, in order, the state of the world
  it left, and its result or the error it threw. \<open>now\<close> is the text of
  \<^verbatim>\<open>Date.now()\<close> and \<open>new_id\<close> the id mongoose gives the new document. The new
  document's \<^verbatim>\<open>publicUrl\<close> is read from \<^verbatim>\<open>uploadResult.location\<close>, a property
  the result of \<open>uploadFile\<close> does not have: it is undefined.
\<close>

record transform_result =
  tr_success :: bool
  tr_transformedImageId :: string
  tr_publicUrl :: "string option"

record optimize_result =
  or_success :: bool
  or_optimized :: bool

definition formatMimeTypes :: "string \<Rightarrow> string option" where
  "formatMimeTypes f =
     (if f = ''jpeg'' then Some ''image/jpeg''
      else if f = ''jpg'' then Some ''image/jpeg''
      else if f = ''png'' then Some ''image/png''
      else if f = ''webp'' then Some ''image/webp''
      else if f = ''avif'' then Some ''image/avif''
      else None)"

text \<open>
  \<^verbatim>\<open>Object.keys(transformations)\<close>: the names of the properties the request has (their
  order in the request is not kept by the record, the order here is the record's).
\<close>

definition object_keys :: "transformations \<Rightarrow> string list" where
  "object_keys t =
     (if t_rotate t \<noteq> None then [''rotate''] else []) @
     (if t_flip t \<noteq> None then [''flip''] else []) @
     (if t_mirror t \<noteq> None then [''mirror''] else []) @
     (if t_crop t \<noteq> None then [''crop''] else []) @
     (if t_resize t \<noteq> None then [''resize''] else []) @
     (if t_filters t \<noteq> None then [''filters''] else []) @
     (if t_watermark t \<noteq> None then [''watermark''] else []) @
     (if t_compress t \<noteq> None then [''compress''] else []) @
     (if t_format t \<noteq> None then [''format''] else []) @
     (if t_formatOptions t \<noteq> None then [''formatOptions''] else [])"

definition process_transform ::
  "('w, 'u) services \<Rightarrow> s3_service \<Rightarrow> sharp \<Rightarrow> image_processor \<Rightarrow> string \<Rightarrow> string \<Rightarrow> 'w
     \<Rightarrow> job_data \<Rightarrow> nat list \<times> 'w \<times> (error + transform_result)" where
  "process_transform V C S P now new_id w d =
     (case Image_findById V w (d_imageId d) of
        Inl m \<Rightarrow> ([10], w, Inl (External m))
      | Inr None \<Rightarrow> ([10], w, Inl ImageNotFound)
      | Inr (Some img) \<Rightarrow>
     (case downloadFile V C w (i_s3Key img) of
        Inl e \<Rightarrow> ([10, 20], w, Inl e)
      | Inr originalBuffer \<Rightarrow>
     (case (case d_transformations d of
              None \<Rightarrow> Inl (Failed ''Failed to transform image'' TypeError)
            | Some t \<Rightarrow> and_then (transform S P originalBuffer t) (\<lambda>b. Inr (t, b))) of
        Inl e \<Rightarrow> ([10, 20, 40], w, Inl e)
      | Inr (t, transformedBuffer) \<Rightarrow>
     (let transformedFilename = ''transformed_'' @ now @ ''_'' @ i_filename img;
          transformedS3Key =
            ''images/'' @ str_of (d_userId d) @ ''/transformed/'' @ transformedFilename;
          mimeType =
            (if truthy_str (t_format t)
             then (case formatMimeTypes (toLowerCase (str_of (t_format t))) of
                     Some m \<Rightarrow> m | None \<Rightarrow> i_mimeType img)
             else i_mimeType img)
      in
     (case uploadFile V C w transformedBuffer transformedS3Key mimeType of
        Inl e \<Rightarrow> ([10, 20, 40, 60, 70], w, Inl e)
      | Inr (w1, uploadResult) \<Rightarrow>
     (case getMetadata S transformedBuffer of
        Inl e \<Rightarrow> ([10, 20, 40, 60, 70, 80], w1, Inl e)
      | Inr transformedMetadata \<Rightarrow>
     (let transformedImage =
            \<lparr>i_id = new_id,
             i_userId = d_userId d,
             i_originalName = ''transformed_'' @ i_originalName img,
             i_filename = transformedFilename,
             i_mimeType = mimeType,
             i_size = length transformedBuffer,
             i_width = m_width transformedMetadata,
             i_height = m_height transformedMetadata,
             i_s3Key = transformedS3Key,
             i_s3Bucket = u_bucket uploadResult,
             i_publicUrl = None,
             i_colorSpace = m_space transformedMetadata,
             i_hasAlpha = m_hasAlpha transformedMetadata,
             i_format = m_format transformedMetadata,
             i_transformations = object_keys t\<rparr>
      in
     (case Image_save V w1 transformedImage of
        Inl m \<Rightarrow> ([10, 20, 40, 60, 70, 80], w1, Inl (External m))
      | Inr w2 \<Rightarrow>
     (case User_findById V w2 (d_userId d) of
        Inl m \<Rightarrow> ([10, 20, 40, 60, 70, 80, 90], w2, Inl (External m))
      | Inr None \<Rightarrow> ([10, 20, 40, 60, 70, 80, 90], w2, Inl TypeError)
      | Inr (Some user) \<Rightarrow>
     (case updateStorageUsage V w2 user (int (length transformedBuffer)) of
        Inl m \<Rightarrow> ([10, 20, 40, 60, 70, 80, 90], w2, Inl (External m))
      | Inr w3 \<Rightarrow>
          ([10, 20, 40, 60, 70, 80, 90, 100], w3,
           Inr \<lparr>tr_success = True, tr_transformedImageId = i_id transformedImage,
                tr_publicUrl = i_publicUrl transformedImage\<rparr>)))))))))))"

subsection \<open>The optimize handler\<close>

text \<open>
  The size test \<^verbatim>\<open>optimizedBuffer.length < image.size * 0.8\<close> is taken in exact
  arithmetic.
\<close>

definition process_optimize ::
  "('w, 'u) services \<Rightarrow> s3_service \<Rightarrow> sharp \<Rightarrow> image_processor \<Rightarrow> 'w
     \<Rightarrow> job_data \<Rightarrow> nat list \<times> 'w \<times> (error + optimize_result)" where
  "process_optimize V C S P w d =
     (case Image_findById V w (d_imageId d) of
        Inl m \<Rightarrow> ([10], w, Inl (External m))
      | Inr None \<Rightarrow> ([10], w, Inl ImageNotFound)
      | Inr (Some img) \<Rightarrow>
     (case downloadFile V C w (i_s3Key img) of
        Inl e \<Rightarrow> ([10, 30], w, Inl e)
      | Inr originalBuffer \<Rightarrow>
     (case compress S P originalBuffer \<lparr>cp_quality = Some 85, cp_format = i_format img\<rparr> of
        Inl e \<Rightarrow> ([10, 30, 50], w, Inl e)
      | Inr optimizedBuffer \<Rightarrow>
     (if real (length optimizedBuffer) < real (i_size img) * 0.8
      then
        (case uploadFile V C w optimizedBuffer (i_s3Key img) (i_mimeType img) of
           Inl e \<Rightarrow> ([10, 30, 50, 70], w, Inl e)
         | Inr (w1, uploadResult) \<Rightarrow>
        (let sizeDifference = int (i_size img) - int (length optimizedBuffer) in
        (case Image_save V w1 (img\<lparr>i_size := length optimizedBuffer\<rparr>) of
           Inl m \<Rightarrow> ([10, 30, 50, 70], w1, Inl (External m))
         | Inr w2 \<Rightarrow>
        (case User_findById V w2 (i_userId img) of
           Inl m \<Rightarrow> ([10, 30, 50, 70], w2, Inl (External m))
         | Inr None \<Rightarrow> ([10, 30, 50, 70], w2, Inl TypeError)
         | Inr (Some user) \<Rightarrow>
        (case updateStorageUsage V w2 user (- sizeDifference) of
           Inl m \<Rightarrow> ([10, 30, 50, 70], w2, Inl (External m))
         | Inr w3 \<Rightarrow>
             ([10, 30, 50, 70, 100], w3, Inr \<lparr>or_success = True, or_optimized = True\<rparr>))))))
      else ([10, 30, 50, 70, 100], w, Inr \<lparr>or_success = True, or_optimized = True\<rparr>)))))"

section \<open>The job routes (src/routes/jobs.js)\<close>

record job_snapshot =
  s_id :: string
  s_type :: string
  s_state :: string
  s_progress :: nat
  s_data :: "job_data option"
  s_createdAt :: nat
  s_processedOn :: "nat option"
  s_finishedOn :: "nat option"
  s_failedReason :: "string option"

definition snapshot :: "job \<Rightarrow> job_snapshot" where
  "snapshot j =
     \<lparr>s_id = j_id j, s_type = j_name j, s_state = j_state j, s_progress = j_progress j,
      s_data = j_data j, s_createdAt = j_timestamp j,
      s_processedOn = (if truthy_num (j_processedOn j) then j_processedOn j else None),
      s_finishedOn = (if truthy_num (j_finishedOn j) then j_finishedOn j else None),
      s_failedReason = j_failedReason j\<rparr>"

datatype 'a response = Status200 'a | Status404 string | Next_error string

text \<open>
  \<^verbatim>\<open>GET /api/jobs/:id\<close>. \<open>getJob\<close> is the queue's lookup, \<open>user_id\<close> the id of the
  authenticated user (\<^verbatim>\<open>req.user\<close>, set by the auth middleware), \<open>job_id\<close> the path
  parameter.
\<close>

definition get_job_handler ::
  "(string \<Rightarrow> string + job option) \<Rightarrow> string \<Rightarrow> string \<Rightarrow> job_snapshot response" where
  "get_job_handler getJob user_id job_id =
     (case getJob job_id of
        Inl m \<Rightarrow> Next_error m
      | Inr None \<Rightarrow> Status404 ''Job not found''
      | Inr (Some j) \<Rightarrow> Status200 (snapshot j))"

text \<open>
  \<^verbatim>\<open>GET /api/jobs\<close>. \<open>getJobs\<close> is the queue's range query; \<open>page\<close> and \<open>limit\<close>
  are the numbers of the query string, \<open>state\<close> its optional state. The range start
  \<^verbatim>\<open>parseInt((page - 1) * limit)\<close> is the exact product, which is what the source
  computes while the product is an integer below \<open>10\<^sup>2\<^sup>1\<close>.
\<close>

definition userJobs :: "string \<Rightarrow> job list \<Rightarrow> job list" where
  "userJobs user_id jobs =
     filter (\<lambda>j. case j_data j of None \<Rightarrow> False | Some d \<Rightarrow> d_userId d = Some user_id) jobs"

record job_list =
  l_jobs :: "job_snapshot list"
  l_currentPage :: int
  l_totalJobs :: nat

definition list_jobs_handler ::
  "(string list \<Rightarrow> int \<Rightarrow> int \<Rightarrow> string + job list) \<Rightarrow> string \<Rightarrow> int \<Rightarrow> int \<Rightarrow> string option
     \<Rightarrow> job_list response" where
  "list_jobs_handler getJobs user_id page limit state =
     (case getJobs (case state of
                      Some s \<Rightarrow> if s \<noteq> [] then [s] else [''waiting'', ''active'', ''completed'', ''failed'']
                    | None \<Rightarrow> [''waiting'', ''active'', ''completed'', ''failed''])
             ((page - 1) * limit) limit of
        Inl m \<Rightarrow> Next_error m
      | Inr jobs \<Rightarrow>
          Status200 \<lparr>l_jobs = map snapshot (userJobs user_id jobs), l_currentPage = page,
                     l_totalJobs = length (userJobs user_id jobs)\<rparr>)"

section \<open>Concrete collaborators\<close>

text \<open>
  Instances of the parameters, for running the handlers on concrete inputs: a sharp
  library that answers every header read with the same metadata and runs a chain with
  the given function, and collaborators that keep the bucket, the Image collection and
  the users' storage usage in maps. The \<open>Image_save\<close> of these collaborators stores
  every document: it runs no validator of the schema.
\<close>

definition stub_sharp :: "(buffer \<Rightarrow> sharp_call list \<Rightarrow> string + buffer) \<Rightarrow> string \<Rightarrow> sharp" where
  "stub_sharp f fmt =
     \<lparr>toBuffer = f,
      metadata = (\<lambda>b. Inr \<lparr>m_width = Some 100, m_height = Some 50, m_format = Some fmt,
                              m_space = Some ''srgb'', m_hasAlpha = Some False\<rparr>)\<rparr>"

fun call_code :: "sharp_call \<Rightarrow> nat" where
  "call_code (Rotate_call a) = 1"
| "call_code Flip_call = 2"
| "call_code Flop_call = 3"
| "call_code (Extract_call x y w h) = 4"
| "call_code (Resize_call w h f e) = 5"
| "call_code (Composite_call b g) = 7"
| "call_code (Jpeg_call q p) = 8"
| "call_code (Png_call q p) = 9"
| "call_code (Webp_call q p) = 10"
| "call_code (Avif_call q) = 11"
| "call_code c = 6"

text \<open>A library that appends the code of each call it runs to the buffer.\<close>

definition recording_sharp :: sharp where
  "recording_sharp = stub_sharp (\<lambda>b cs. Inr (b @ map call_code cs)) ''jpeg''"

record store =
  bucket :: "string \<rightharpoonup> buffer"
  imgs :: "string \<rightharpoonup> image"
  usage :: "string \<rightharpoonup> int"

definition mem_services :: "(store, string) services" where
  "mem_services =
     \<lparr>s3_get = (\<lambda>w b k. case bucket w k of None \<Rightarrow> Inl ''NoSuchKey'' | Some v \<Rightarrow> Inr v),
      s3_put = (\<lambda>w b k body ct. Inr (w\<lparr>bucket := (bucket w)(k \<mapsto> body)\<rparr>)),
      Image_findById = (\<lambda>w i. Inr (imgs w i)),
      Image_save = (\<lambda>w d. Inr (w\<lparr>imgs := (imgs w)(i_id d \<mapsto> d)\<rparr>)),
      User_findById = (\<lambda>w u. Inr (case u of None \<Rightarrow> None
                                  | Some v \<Rightarrow> (case usage w v of None \<Rightarrow> None | Some n \<Rightarrow> Some v))),
      updateStorageUsage = (\<lambda>w u n. Inr (w\<lparr>usage := (usage w)(u \<mapsto>
                                  (case usage w u of None \<Rightarrow> n | Some m \<Rightarrow> m + n))\<rparr>))\<rparr>"

definition demo_s3 :: s3_service where
  "demo_s3 = \<lparr>bucketName = Some ''bucket'', region = ''us-east-1''\<rparr>"

definition demo_image :: "string option \<Rightarrow> image" where
  "demo_image fmt =
     \<lparr>i_id = ''img1'', i_userId = Some ''userA'', i_originalName = ''cat.jpg'',
      i_filename = ''1-ab.jpg'', i_mimeType = ''image/jpeg'', i_size = 100,
      i_width = Some 100, i_height = Some 50, i_s3Key = ''images/userA/1-ab.jpg'',
      i_s3Bucket = Some ''bucket'', i_publicUrl = Some ''https://bucket.s3.amazonaws.com/images/userA/1-ab.jpg'',
      i_colorSpace = Some ''srgb'', i_hasAlpha = Some False, i_format = fmt,
      i_transformations = []\<rparr>"

definition demo_store :: "string option \<Rightarrow> store" where
  "demo_store fmt =
     \<lparr>bucket = [''images/userA/1-ab.jpg'' \<mapsto> replicate 100 0],
      imgs = [''img1'' \<mapsto> demo_image fmt],
      usage = [''userA'' \<mapsto> 100]\<rparr>"

definition demo_resize :: resize_options where
  "demo_resize =
     \<lparr>r_width = Some 100, r_height = Some 100, r_fit = None, r_withoutEnlargement = None\<rparr>"

definition demo_watermark :: watermark_spec where
  "demo_watermark = \<lparr>wm_text = Some ''logo'', wm_image = None, wm_options = None\<rparr>"

definition demo_optimize_data :: job_data where
  "demo_optimize_data = \<lparr>d_imageId = ''img1'', d_transformations = None, d_userId = None\<rparr>"

definition demo_transform_data :: job_data where
  "demo_transform_data =
     \<lparr>d_imageId = ''img1'',
      d_transformations = Some (object_of [F_format ''webp'', F_rotate 90]),
      d_userId = Some ''userA''\<rparr>"

text \<open>A queue holding one transform job, which user A submitted.\<close>

definition demo_job :: job where
  "demo_job = addTransformJob ''1'' 1000 ''img1'' no_transformations ''userA''"

definition demo_getJob :: "string \<Rightarrow> string + job option" where
  "demo_getJob i = Inr (if i = ''1'' then Some demo_job else None)"

text \<open>
  Jobs for the clean calls, at a load time of 90000000 ms (25 hours): a job that failed
  within the first second, and the same job in other states and with other end times.
\<close>

definition old_failed_job :: job where
  "old_failed_job =
     (addTransformJob ''7'' 0 ''img1'' no_transformations ''userA'')
       \<lparr>j_state := ''failed'', j_processedOn := Some 10, j_finishedOn := Some 20,
        j_failedReason := Some ''Image not found''\<rparr>"

definition recent_failed_job :: job where
  "recent_failed_job = old_failed_job\<lparr>j_id := ''8'', j_finishedOn := Some 80000000\<rparr>"

definition old_completed_job :: job where
  "old_completed_job =
     old_failed_job\<lparr>j_id := ''9'', j_state := ''completed'', j_failedReason := None\<rparr>"

definition recent_completed_job :: job where
  "recent_completed_job = old_completed_job\<lparr>j_id := ''10'', j_finishedOn := Some 80000000\<rparr>"

definition old_waiting_job :: job where
  "old_waiting_job = addTransformJob ''11'' 0 ''img1'' no_transformations ''userA''"

section \<open>Properties of the image processor\<close>

text \<open>
  C10. A filter set whose saturation is 0 gives the same result as the same filter set
  with saturation absent: the saturation branch of \<^verbatim>\<open>applyFilters\<close> tests truthiness,
  and 0 is falsy. The validation schema accepts saturation 0 wherever it accepts the
  filter set without saturation.
\<close>

theorem applyFilters_saturation_zero:
  "applyFilters S imageBuffer (f\<lparr>saturation := Some 0\<rparr>) =
   applyFilters S imageBuffer (f\<lparr>saturation := None\<rparr>)
   \<and> filters_schema (f\<lparr>saturation := Some 0\<rparr>) = filters_schema (f\<lparr>saturation := None\<rparr>)"
  by (simp add: applyFilters_def filter_chain_def filters_schema_def in_range_def)

subsection \<open>Order of the stages\<close>

lemma filter_requested:
  "filter (requested t) precedence =
     (if requested t Rotate then [Rotate] else []) @
     (if requested t Flip then [Flip] else []) @
     (if requested t Mirror then [Mirror] else []) @
     (if requested t Crop then [Crop] else []) @
     (if requested t Resize then [Resize] else []) @
     (if requested t Filters then [Filters] else []) @
     (if requested t Watermark then [Watermark] else []) @
     (if requested t Compress then [Compress] else []) @
     (if requested t Format then [Format] else [])"
  by (simp add: precedence_def)

lemma run_stages_guard:
  "run_stages S P t ((if g then [s] else []) @ ys) =
     (\<lambda>b. and_then (if g then apply_stage S P t s b else Inr b) (run_stages S P t ys))"
  by (rule ext) (simp add: and_then_def split: sum.splits)

lemma run_stages_last:
  "run_stages S P t (if g then [s] else []) =
     (\<lambda>b. if g then apply_stage S P t s b else Inr b)"
  by (rule ext) (simp add: and_then_def split: sum.splits)

lemma guard_option:
  "(if v \<noteq> None then (case v of Some c \<Rightarrow> f c | None \<Rightarrow> x) else x) =
   (case v of Some c \<Rightarrow> f c | None \<Rightarrow> x)"
  by (cases v) simp_all

lemma guard_watermark:
  "(if (case v of None \<Rightarrow> False | Some w \<Rightarrow> wm_image w \<noteq> None)
    then (case v of Some w \<Rightarrow> (case wm_image w of Some i \<Rightarrow> f i w | None \<Rightarrow> x) | None \<Rightarrow> x)
    else x) =
   (case v of Some w \<Rightarrow> (case wm_image w of Some i \<Rightarrow> f i w | None \<Rightarrow> x) | None \<Rightarrow> x)"
  by (cases v) (auto split: option.splits)

lemma transform_run_stages:
  "transform S P b t =
     catch ''Failed to transform image'' (run_stages S P t (filter (requested t) precedence) b)"
  unfolding transform_def filter_requested run_stages_guard run_stages_last
    requested.simps apply_stage.simps guard_option guard_watermark
  by (rule refl)

lemma not_present_not_requested: "\<not> present t s \<Longrightarrow> \<not> requested t s"
  by (cases s) (simp_all add: truthy_num_def truthy_bool_def truthy_str_def)

lemma set_field_commute:
  "key x \<noteq> key y \<Longrightarrow> set_field x (set_field y t) = set_field y (set_field x t)"
  by (cases x; cases y) simp_all

lemma object_of_permuted:
  assumes "distinct (map key fs)" and "mset gs = mset fs"
  shows "object_of gs = object_of fs"
proof -
  have "fold set_field gs = fold set_field fs"
  proof (rule fold_multiset_equiv)
    fix x y
    assume "x \<in> set gs" and "y \<in> set gs"
    then have xy: "x \<in> set fs" "y \<in> set fs"
      using assms(2) mset_eq_setD by blast+
    have "inj_on key (set fs)"
      using assms(1) by (simp add: distinct_map)
    then have "x \<noteq> y \<Longrightarrow> key x \<noteq> key y"
      using xy by (auto dest: inj_onD)
    then show "set_field x \<circ> set_field y = set_field y \<circ> set_field x"
      by (cases "x = y") (auto simp: fun_eq_iff set_field_commute)
  qed (rule assms(2))
  then show ?thesis by (simp add: object_of_def)
qed

text \<open>
  C2. For every request, \<open>transform\<close> runs exactly the stages whose guard holds, in the
  fixed precedence rotate, flip, mirror, crop, resize, filters, watermark, compress,
  format conversion, each on the buffer of the one before and stopping at the first
  error; a stage whose field is absent is not run; and two requests with the same
  fields written in different orders are transformed alike.
\<close>

theorem transform_fixed_precedence:
  "transform S P b t =
     catch ''Failed to transform image'' (run_stages S P t (filter (requested t) precedence) b)
   \<and> subseq (filter (requested t) precedence) precedence
   \<and> (\<forall>s. \<not> present t s \<longrightarrow> s \<notin> set (filter (requested t) precedence))
   \<and> (distinct (map key fs) \<and> mset gs = mset fs \<longrightarrow>
        transform S P b (object_of gs) = transform S P b (object_of fs))"
  using transform_run_stages [of S P b t] not_present_not_requested [of t]
    object_of_permuted [of fs gs]
  by auto

text \<open>
  Witness for C2: a request with resize written before rotate, on the recording library.
  Rotate (code 1) runs before resize (code 5) in either order of writing.
\<close>

theorem transform_fixed_precedence_witness:
  "transform recording_sharp imageProcessor [] (object_of [F_resize demo_resize, F_rotate 90]) = Inr [1, 5]
   \<and> transform recording_sharp imageProcessor [] (object_of [F_rotate 90, F_resize demo_resize]) = Inr [1, 5]
   \<and> filter (requested (object_of [F_resize demo_resize, F_rotate 90])) precedence = [Rotate, Resize]
   \<and> subseq [Rotate, Resize] precedence"
  using transform_fixed_precedence [of recording_sharp imageProcessor "[]"
      "object_of [F_resize demo_resize, F_rotate 90]"
      "[F_resize demo_resize, F_rotate 90]" "[F_rotate 90, F_resize demo_resize]"]
  by (simp add: object_of_def no_transformations_def demo_resize_def precedence_def
      truthy_num_def truthy_bool_def truthy_str_def catch_def and_then_def lib_def
      rotate_image_def resize_def recording_sharp_def stub_sharp_def imageProcessor_def
      new_ImageProcessor_def or_num_def gt_def)

subsection \<open>Watermark without an overlay image\<close>

text \<open>
  C5, as the source has it. When a request has a watermark field with no image, the
  watermark stage is skipped: the result is that of the same request without the
  watermark field, and no error is raised for the missing image.
\<close>

theorem transform_skips_watermark_without_image:
  "t_watermark t = Some wm \<Longrightarrow> wm_image wm = None \<Longrightarrow>
     transform S P b t = transform S P b (t\<lparr>t_watermark := None\<rparr>)"
  by (simp add: transform_def cong: if_cong)

text \<open>Witness for C5: a request whose only field is a watermark with a text and no image.\<close>

theorem transform_skips_watermark_without_image_witness:
  "transform recording_sharp imageProcessor [1, 2, 3] (object_of [F_watermark demo_watermark]) =
   transform recording_sharp imageProcessor [1, 2, 3] no_transformations"
  using transform_skips_watermark_without_image [of "object_of [F_watermark demo_watermark]"
      demo_watermark recording_sharp imageProcessor "[1, 2, 3]"]
  by (simp add: object_of_def no_transformations_def demo_watermark_def)

text \<open>
  Counterexample to C5 as stated: the same request does not fail, it returns the input
  buffer.
\<close>

theorem transform_watermark_without_image_succeeds:
  "transform recording_sharp imageProcessor [1, 2, 3] (object_of [F_watermark demo_watermark])
     = Inr [1, 2, 3]"
  by (simp add: transform_def object_of_def no_transformations_def demo_watermark_def
      truthy_num_def truthy_bool_def truthy_str_def catch_def and_then_def)

subsection \<open>The dimension ceiling of resize\<close>

text \<open>
  C6. Resize enforces the processor's maximum dimension, which is 4000 for the exported
  processor: a resize whose width or height exceeds it fails with the maximum-dimension
  error, whatever the library would do. A resize whose width and height are both absent
  or at most the maximum passes the check: its outcome is that of the library's call, so
  it succeeds whenever the library does. At the boundary, 4001 fails and 4000 passes.
\<close>

theorem resize_dimension_ceiling:
  "maxDimension imageProcessor = 4000
   \<and> (gt (r_width options) (maxDimension P) \<or> gt (r_height options) (maxDimension P) \<longrightarrow>
        resize S P b options =
          Inl (Failed ''Failed to resize image'' (MaximumDimension (maxDimension P))))
   \<and> (\<not> gt (r_width options) (maxDimension P) \<and> \<not> gt (r_height options) (maxDimension P) \<longrightarrow>
        resize S P b options =
          catch ''Failed to resize image''
            (lib (toBuffer S b
               (if truthy_num (r_width options) \<or> truthy_num (r_height options)
                then [Resize_call (r_width options) (r_height options)
                        (case r_fit options of None \<Rightarrow> ''inside'' | Some f \<Rightarrow> f)
                        (case r_withoutEnlargement options of None \<Rightarrow> True | Some e \<Rightarrow> e)]
                else []))))
   \<and> (\<not> gt (r_width options) (maxDimension P) \<and> \<not> gt (r_height options) (maxDimension P) \<and>
        toBuffer S b
          (if truthy_num (r_width options) \<or> truthy_num (r_height options)
           then [Resize_call (r_width options) (r_height options)
                   (case r_fit options of None \<Rightarrow> ''inside'' | Some f \<Rightarrow> f)
                   (case r_withoutEnlargement options of None \<Rightarrow> True | Some e \<Rightarrow> e)]
           else []) = Inr b' \<longrightarrow>
        resize S P b options = Inr b')"
proof (intro conjI impI)
  show "maxDimension imageProcessor = 4000"
    by (simp add: imageProcessor_def new_ImageProcessor_def or_num_def)
next
  assume "gt (r_width options) (maxDimension P) \<or> gt (r_height options) (maxDimension P)"
  then show "resize S P b options =
      Inl (Failed ''Failed to resize image'' (MaximumDimension (maxDimension P)))"
    by (auto simp: resize_def catch_def Let_def)
next
  assume ok: "\<not> gt (r_width options) (maxDimension P) \<and> \<not> gt (r_height options) (maxDimension P)"
  then show "resize S P b options =
      catch ''Failed to resize image''
        (lib (toBuffer S b
           (if truthy_num (r_width options) \<or> truthy_num (r_height options)
            then [Resize_call (r_width options) (r_height options)
                    (case r_fit options of None \<Rightarrow> ''inside'' | Some f \<Rightarrow> f)
                    (case r_withoutEnlargement options of None \<Rightarrow> True | Some e \<Rightarrow> e)]
            else [])))"
    by (simp add: resize_def Let_def)
next
  assume "\<not> gt (r_width options) (maxDimension P) \<and> \<not> gt (r_height options) (maxDimension P) \<and>
      toBuffer S b
        (if truthy_num (r_width options) \<or> truthy_num (r_height options)
         then [Resize_call (r_width options) (r_height options)
                 (case r_fit options of None \<Rightarrow> ''inside'' | Some f \<Rightarrow> f)
                 (case r_withoutEnlargement options of None \<Rightarrow> True | Some e \<Rightarrow> e)]
         else []) = Inr b'"
  then show "resize S P b options = Inr b'"
    by (simp add: resize_def Let_def catch_def lib_def)
qed

text \<open>
  Witness for C6, on the recording library and the exported processor: width 4001 fails,
  as does a height of 9999 beside a width of 100, and width 4000 passes.
\<close>

theorem resize_dimension_ceiling_witness:
  "resize recording_sharp imageProcessor []
     \<lparr>r_width = Some 4001, r_height = None, r_fit = None, r_withoutEnlargement = None\<rparr> =
     Inl (Failed ''Failed to resize image'' (MaximumDimension 4000))
   \<and> resize recording_sharp imageProcessor []
     \<lparr>r_width = Some 100, r_height = Some 9999, r_fit = None, r_withoutEnlargement = None\<rparr> =
     Inl (Failed ''Failed to resize image'' (MaximumDimension 4000))
   \<and> resize recording_sharp imageProcessor []
     \<lparr>r_width = Some 4000, r_height = None, r_fit = None, r_withoutEnlargement = None\<rparr> = Inr [5]"
  using resize_dimension_ceiling [where P = imageProcessor and S = recording_sharp and b = "[]"
      and b' = "[5]" and options =
        "\<lparr>r_width = Some 4001, r_height = None, r_fit = None, r_withoutEnlargement = None\<rparr>"]
    resize_dimension_ceiling [where P = imageProcessor and S = recording_sharp and b = "[]"
      and b' = "[5]" and options =
        "\<lparr>r_width = Some 100, r_height = Some 9999, r_fit = None, r_withoutEnlargement = None\<rparr>"]
    resize_dimension_ceiling [where P = imageProcessor and S = recording_sharp and b = "[]"
      and b' = "[5]" and options =
        "\<lparr>r_width = Some 4000, r_height = None, r_fit = None, r_withoutEnlargement = None\<rparr>"]
  by (simp add: gt_def truthy_num_def recording_sharp_def stub_sharp_def catch_def lib_def
      imageProcessor_def new_ImageProcessor_def or_num_def)

subsection \<open>Images stored as gif\<close>

lemma toLowerCase_gif: "toLowerCase ''gif'' = ''gif''"
  by (simp add: toLowerCase_def lower_char_def)

lemma changeFormat_gif:
  "changeFormat S P b (Some ''gif'') options =
     Inl (Failed ''Failed to convert image format'' (UnsupportedFormat ''gif''))"
  by (simp add: changeFormat_def toLowerCase_gif catch_def)

lemma compress_gif_default:
  "metadata S b = Inr md \<Longrightarrow> m_format md = Some ''gif'' \<Longrightarrow> \<not> truthy_str (cp_format options) \<Longrightarrow>
     compress S P b options =
       Inl (Failed ''Failed to compress image''
             (Failed ''Failed to convert image format'' (UnsupportedFormat ''gif'')))"
  by (simp add: compress_def changeFormat_gif catch_def and_then_def lib_def)

lemma compress_gif_explicit:
  "compress S P b \<lparr>cp_quality = q, cp_format = Some ''gif''\<rparr> =
     (case metadata S b of
        Inl m \<Rightarrow> Inl (Failed ''Failed to compress image'' (External m))
      | Inr md \<Rightarrow> Inl (Failed ''Failed to compress image''
             (Failed ''Failed to convert image format'' (UnsupportedFormat ''gif''))))"
  by (simp add: compress_def changeFormat_gif catch_def and_then_def lib_def truthy_str_def
      split: sum.splits)

text \<open>
  C9. The upload filter accepts \<^verbatim>\<open>image/gif\<close>. On a buffer whose format is gif,
  compress with no format override fails with the unsupported-format error of the format
  converter. An optimize job on an image whose stored format is gif never succeeds and
  leaves the world as it was; when the download and the header read succeed, it fails
  with that unsupported-format error after reporting progress 10, 30, 50.
\<close>

theorem gif_compress_unsupported:
  "fileFilter None ''image/gif''
   \<and> (metadata S b = Inr md \<and> m_format md = Some ''gif'' \<and> \<not> truthy_str (cp_format options) \<longrightarrow>
        compress S P b options =
          Inl (Failed ''Failed to compress image''
                (Failed ''Failed to convert image format'' (UnsupportedFormat ''gif''))))
   \<and> (Image_findById V w (d_imageId d) = Inr (Some img) \<and> i_format img = Some ''gif'' \<longrightarrow>
        (\<exists>ps e. process_optimize V C S P w d = (ps, w, Inl e))
        \<and> (\<forall>buf md'. downloadFile V C w (i_s3Key img) = Inr buf \<and> metadata S buf = Inr md' \<longrightarrow>
             process_optimize V C S P w d =
               ([10, 30, 50], w,
                Inl (Failed ''Failed to compress image''
                      (Failed ''Failed to convert image format'' (UnsupportedFormat ''gif''))))))"
proof (intro conjI impI allI)
  show "fileFilter None ''image/gif''"
    by (simp add: fileFilter_def)
next
  assume "metadata S b = Inr md \<and> m_format md = Some ''gif'' \<and> \<not> truthy_str (cp_format options)"
  then show "compress S P b options =
          Inl (Failed ''Failed to compress image''
                (Failed ''Failed to convert image format'' (UnsupportedFormat ''gif'')))"
    by (simp add: compress_gif_default)
next
  assume a: "Image_findById V w (d_imageId d) = Inr (Some img) \<and> i_format img = Some ''gif''"
  then show "\<exists>ps e. process_optimize V C S P w d = (ps, w, Inl e)"
    by (auto simp: process_optimize_def compress_gif_explicit split: sum.splits)
next
  fix buf md'
  assume a: "Image_findById V w (d_imageId d) = Inr (Some img) \<and> i_format img = Some ''gif''"
    and b: "downloadFile V C w (i_s3Key img) = Inr buf \<and> metadata S buf = Inr md'"
  then show "process_optimize V C S P w d =
               ([10, 30, 50], w,
                Inl (Failed ''Failed to compress image''
                      (Failed ''Failed to convert image format'' (UnsupportedFormat ''gif''))))"
    by (simp add: process_optimize_def compress_gif_explicit)
qed

lemma demo_find:
  "Image_findById mem_services (demo_store fmt) (d_imageId demo_optimize_data) = Inr (Some (demo_image fmt))"
  by (simp add: mem_services_def demo_store_def demo_optimize_data_def)

lemma demo_download:
  "downloadFile mem_services demo_s3 (demo_store fmt) (i_s3Key (demo_image fmt)) = Inr (replicate 100 0)"
  by (simp add: downloadFile_def mem_services_def demo_store_def demo_image_def catch_def lib_def)

text \<open>Witness for C9: a stored gif image, on a library that reports the format gif.\<close>

theorem gif_compress_unsupported_witness:
  "fileFilter None ''image/gif''
   \<and> compress (stub_sharp (\<lambda>b cs. Inr b) ''gif'') imageProcessor [1, 2, 3]
        \<lparr>cp_quality = None, cp_format = None\<rparr> =
       Inl (Failed ''Failed to compress image''
             (Failed ''Failed to convert image format'' (UnsupportedFormat ''gif'')))
   \<and> process_optimize mem_services demo_s3 (stub_sharp (\<lambda>b cs. Inr b) ''gif'') imageProcessor
        (demo_store (Some ''gif'')) demo_optimize_data =
       ([10, 30, 50], demo_store (Some ''gif''),
        Inl (Failed ''Failed to compress image''
              (Failed ''Failed to convert image format'' (UnsupportedFormat ''gif''))))"
  using gif_compress_unsupported [where S = "stub_sharp (\<lambda>b cs. Inr b) ''gif''" and b = "[1, 2, 3]"
      and md = "\<lparr>m_width = Some 100, m_height = Some 50, m_format = Some ''gif'',
        m_space = Some ''srgb'', m_hasAlpha = Some False\<rparr>"
      and options = "\<lparr>cp_quality = None, cp_format = None\<rparr>" and V = mem_services
      and w = "demo_store (Some ''gif'')" and d = demo_optimize_data
      and img = "demo_image (Some ''gif'')" and C = demo_s3 and P = imageProcessor]
    demo_find [of "Some ''gif''"] demo_download [of "Some ''gif''"]
  by (simp add: stub_sharp_def truthy_str_def demo_image_def)

section \<open>Properties of the job routes and the queue\<close>

lemma get_job_handler_ignores_user:
  "get_job_handler getJob user_a job_id = get_job_handler getJob user_b job_id"
  by (simp add: get_job_handler_def)

text \<open>
  C1, at the failing input. User B asks for the status of the job that user A submitted:
  the handler answers 200 with the snapshot of A's job, payload included. The handler
  never compares the job's owner with the requester.
\<close>

theorem get_job_handler_other_user:
  "get_job_handler demo_getJob ''userB'' ''1'' = Status200 (snapshot demo_job)
   \<and> s_data (snapshot demo_job) =
       Some \<lparr>d_imageId = ''img1'', d_transformations = Some no_transformations, d_userId = Some ''userA''\<rparr>"
  by (simp add: get_job_handler_def demo_getJob_def snapshot_def demo_job_def addTransformJob_def
      queue_add_def)

text \<open>
  C8. A job with the payload of an optimize job (an image id and no user id) is in no
  user's filtered list, and its snapshot is in no response of the listing handler.
\<close>

theorem optimize_jobs_never_listed:
  "j_data j = j_data (addOptimizeJob jid now imageId) \<Longrightarrow>
     j \<notin> set (userJobs user_id jobs)
     \<and> (\<forall>r. list_jobs_handler getJobs user_id page limit state = Status200 r \<longrightarrow>
            snapshot j \<notin> set (l_jobs r))"
  by (auto simp: userJobs_def addOptimizeJob_def queue_add_def list_jobs_handler_def snapshot_def
      split: sum.splits option.splits)

text \<open>Witness for C8: a queue with an optimize job and A's transform job, listed for A.\<close>

theorem optimize_jobs_never_listed_witness:
  "userJobs ''userA'' [addOptimizeJob ''2'' 2000 ''img1'', demo_job] = [demo_job]
   \<and> list_jobs_handler (\<lambda>ts s e. Inr [addOptimizeJob ''2'' 2000 ''img1'', demo_job]) ''userA'' 1 10 None =
       Status200 \<lparr>l_jobs = [snapshot demo_job], l_currentPage = 1, l_totalJobs = 1\<rparr>
   \<and> snapshot (addOptimizeJob ''2'' 2000 ''img1'') \<noteq> snapshot demo_job"
  using optimize_jobs_never_listed [where j = "addOptimizeJob ''2'' 2000 ''img1''" and jid = "''2''"
      and now = 2000 and imageId = "''img1''" and user_id = "''userA''"
      and jobs = "[addOptimizeJob ''2'' 2000 ''img1'', demo_job]"
      and getJobs = "\<lambda>ts s e. Inr [addOptimizeJob ''2'' 2000 ''img1'', demo_job]"
      and page = 1 and limit = 10 and state = None]
  by (simp add: userJobs_def addOptimizeJob_def queue_add_def list_jobs_handler_def snapshot_def
      demo_job_def addTransformJob_def truthy_num_def)

section \<open>Properties of the queue handlers\<close>

lemma process_transform_progress:
  "process_transform V C S P now new_id w d = (ps, w', r) \<Longrightarrow>
     (ps = [10] \<or> ps = [10, 20] \<or> ps = [10, 20, 40] \<or> ps = [10, 20, 40, 60, 70]
      \<or> ps = [10, 20, 40, 60, 70, 80] \<or> ps = [10, 20, 40, 60, 70, 80, 90]) \<and> isl r
     \<or> ps = [10, 20, 40, 60, 70, 80, 90, 100] \<and> \<not> isl r"
  unfolding process_transform_def Let_def
  by (auto split: sum.splits option.splits prod.splits)

text \<open>
  C7. Whatever the collaborators do, the progress values one run of the transform handler
  reports are sorted, lie in 0..100 and are a prefix of 10, 20, 40, 60, 70, 80, 90, 100;
  when the run succeeds the last one is 100.
\<close>

theorem transform_progress_monotone:
  "process_transform V C S P now new_id w d = (ps, w', r) \<Longrightarrow>
     sorted ps \<and> (\<forall>p \<in> set ps. 0 \<le> p \<and> p \<le> 100)
     \<and> prefix ps [10, 20, 40, 60, 70, 80, 90, 100]
     \<and> (\<forall>v. r = Inr v \<longrightarrow> last ps = 100)"
proof -
  assume run: "process_transform V C S P now new_id w d = (ps, w', r)"
  have "ps \<in> {[10], [10, 20], [10, 20, 40], [10, 20, 40, 60, 70], [10, 20, 40, 60, 70, 80],
              [10, 20, 40, 60, 70, 80, 90]} \<and> isl r
        \<or> ps = [10, 20, 40, 60, 70, 80, 90, 100]"
    using process_transform_progress [OF run] by auto
  then show ?thesis
    by (elim disjE conjE) (auto simp: prefix_def)
qed

lemma demo_transform_run:
  "fst (process_transform mem_services demo_s3 recording_sharp imageProcessor ''1700'' ''img2''
          (demo_store (Some ''jpeg'')) demo_transform_data) = [10, 20, 40, 60, 70, 80, 90, 100]"
  "snd (snd (process_transform mem_services demo_s3 recording_sharp imageProcessor ''1700'' ''img2''
          (demo_store (Some ''jpeg'')) demo_transform_data)) =
     Inr \<lparr>tr_success = True, tr_transformedImageId = ''img2'', tr_publicUrl = None\<rparr>"
  by (simp_all add: process_transform_def mem_services_def demo_store_def demo_image_def
      demo_transform_data_def downloadFile_def uploadFile_def demo_s3_def catch_def lib_def
      and_then_def transform_def object_of_def no_transformations_def truthy_num_def
      truthy_bool_def truthy_str_def rotate_image_def changeFormat_def toLowerCase_def
      lower_char_def recording_sharp_def stub_sharp_def getMetadata_def imageProcessor_def
      new_ImageProcessor_def or_num_def or_false_def Let_def)

text \<open>Witness for C7: a run that succeeds, on the concrete collaborators.\<close>

theorem transform_progress_monotone_witness:
  "fst (process_transform mem_services demo_s3 recording_sharp imageProcessor ''1700'' ''img2''
          (demo_store (Some ''jpeg'')) demo_transform_data) = [10, 20, 40, 60, 70, 80, 90, 100]
   \<and> sorted (fst (process_transform mem_services demo_s3 recording_sharp imageProcessor ''1700''
          ''img2'' (demo_store (Some ''jpeg'')) demo_transform_data))
   \<and> last (fst (process_transform mem_services demo_s3 recording_sharp imageProcessor ''1700''
          ''img2'' (demo_store (Some ''jpeg'')) demo_transform_data)) = 100"
  using transform_progress_monotone [where V = mem_services and C = demo_s3
      and S = recording_sharp and P = imageProcessor and now = "''1700''" and new_id = "''img2''"
      and w = "demo_store (Some ''jpeg'')" and d = demo_transform_data
      and ps = "fst (process_transform mem_services demo_s3 recording_sharp imageProcessor ''1700''
          ''img2'' (demo_store (Some ''jpeg'')) demo_transform_data)"
      and w' = "fst (snd (process_transform mem_services demo_s3 recording_sharp imageProcessor
          ''1700'' ''img2'' (demo_store (Some ''jpeg'')) demo_transform_data))"
      and r = "snd (snd (process_transform mem_services demo_s3 recording_sharp imageProcessor
          ''1700'' ''img2'' (demo_store (Some ''jpeg'')) demo_transform_data))"]
    demo_transform_run
  by simp

lemma process_optimize_noop:
  "Image_findById V w (d_imageId d) = Inr (Some img) \<Longrightarrow>
   downloadFile V C w (i_s3Key img) = Inr buf \<Longrightarrow>
   compress S P buf \<lparr>cp_quality = Some 85, cp_format = i_format img\<rparr> = Inr opt \<Longrightarrow>
   \<not> real (length opt) < real (i_size img) * 0.8 \<Longrightarrow>
     process_optimize V C S P w d =
       ([10, 30, 50, 70, 100], w, Inr \<lparr>or_success = True, or_optimized = True\<rparr>)"
  by (simp add: process_optimize_def)

lemma demo_compress:
  "compress (stub_sharp (\<lambda>b cs. Inr out) ''jpeg'') imageProcessor buf
     \<lparr>cp_quality = Some 85, cp_format = Some ''jpeg''\<rparr> = Inr out"
  by (simp add: compress_def changeFormat_def toLowerCase_def lower_char_def stub_sharp_def
      catch_def lib_def and_then_def truthy_str_def)

lemma demo_noop_run:
  "process_optimize mem_services demo_s3 (stub_sharp (\<lambda>b cs. Inr (replicate 95 0)) ''jpeg'')
      imageProcessor (demo_store (Some ''jpeg'')) demo_optimize_data =
     ([10, 30, 50, 70, 100], demo_store (Some ''jpeg''),
      Inr \<lparr>or_success = True, or_optimized = True\<rparr>)"
proof (rule process_optimize_noop [OF demo_find demo_download])
  show "compress (stub_sharp (\<lambda>b cs. Inr (replicate 95 0)) ''jpeg'') imageProcessor (replicate 100 0)
     \<lparr>cp_quality = Some 85, cp_format = i_format (demo_image (Some ''jpeg''))\<rparr> = Inr (replicate 95 0)"
    by (simp add: demo_image_def demo_compress)
  show "\<not> real (length (replicate 95 (0::nat))) < real (i_size (demo_image (Some ''jpeg''))) * 0.8"
    by (simp add: demo_image_def)
qed

lemma demo_applied_run:
  "snd (snd (process_optimize mem_services demo_s3
        (stub_sharp (\<lambda>b cs. Inr (replicate 50 0)) ''jpeg'')
        imageProcessor (demo_store (Some ''jpeg'')) demo_optimize_data)) =
     Inr \<lparr>or_success = True, or_optimized = True\<rparr>"
  "bucket (fst (snd (process_optimize mem_services demo_s3
        (stub_sharp (\<lambda>b cs. Inr (replicate 50 0)) ''jpeg'')
        imageProcessor (demo_store (Some ''jpeg'')) demo_optimize_data)))
        ''images/userA/1-ab.jpg'' = Some (replicate 50 0)"
  by (simp_all add: process_optimize_def mem_services_def demo_store_def demo_image_def
      demo_optimize_data_def downloadFile_def uploadFile_def demo_s3_def compress_def
      changeFormat_def toLowerCase_def lower_char_def stub_sharp_def catch_def lib_def
      and_then_def truthy_str_def imageProcessor_def new_ImageProcessor_def or_num_def
      or_false_def Let_def)

text \<open>
  C3, at the failing input. The stored image has 100 bytes and the re-encoded one 95 (a
  reduction of 5%): the job completes, the world is unchanged, and the result is
  \<^verbatim>\<open>{success: true, optimized: true}\<close>. With a re-encoded image of 50 bytes the stored
  bytes are replaced and the result is the same \<^verbatim>\<open>{success: true, optimized: true}\<close>:
  the payload does not tell the two outcomes apart.
\<close>

theorem optimize_noop_reports_optimized:
  "process_optimize mem_services demo_s3 (stub_sharp (\<lambda>b cs. Inr (replicate 95 0)) ''jpeg'')
      imageProcessor (demo_store (Some ''jpeg'')) demo_optimize_data =
     ([10, 30, 50, 70, 100], demo_store (Some ''jpeg''),
      Inr \<lparr>or_success = True, or_optimized = True\<rparr>)
   \<and> snd (snd (process_optimize mem_services demo_s3
        (stub_sharp (\<lambda>b cs. Inr (replicate 50 0)) ''jpeg'')
        imageProcessor (demo_store (Some ''jpeg'')) demo_optimize_data)) =
     Inr \<lparr>or_success = True, or_optimized = True\<rparr>
   \<and> bucket (fst (snd (process_optimize mem_services demo_s3
        (stub_sharp (\<lambda>b cs. Inr (replicate 50 0)) ''jpeg'')
        imageProcessor (demo_store (Some ''jpeg'')) demo_optimize_data)))
        ''images/userA/1-ab.jpg'' = Some (replicate 50 0)"
  using demo_noop_run demo_applied_run by (intro conjI)

subsection \<open>Cleaning the queue\<close>



text \<open>
  The clean calls on a queue of five jobs, 25 hours after time 0: the completed and the
  failed job that ended within the last 24 hours stay, as does the waiting job.
\<close>

lemma startup_clean_example:
  "startup_clean (bull_clean job_time 90000000)
     [old_completed_job, recent_completed_job, recent_failed_job, old_failed_job, old_waiting_job] =
     [recent_completed_job, recent_failed_job, old_waiting_job]"
  by (simp add: startup_clean_def bull_clean_def job_time_def old_failed_job_def
      recent_failed_job_def old_completed_job_def recent_completed_job_def old_waiting_job_def
      addTransformJob_def queue_add_def)

end
